theory Spec2Isabelle
  imports Main "HOL-Library.Word" "HOL-Library.Multiset" "HOL-Library.AList"
begin

section \<open>The user service of realworld-aws-lambda-dynamodb-go\<close>

text \<open>
  A shallow embedding of \<^verbatim>\<open>service/UserService.go\<close>. Every function of the file that
  talks to DynamoDB is a function of an environment \<open>Env\<close> (the answers of the store
  client and of the helpers that live outside this file) and returns, next to its Go
  result, the list of store calls it issued, in order.
\<close>

subsection \<open>Data model\<close>

type_synonym byte = "8 word"

text \<open>
  \<^verbatim>\<open>model.User\<close>. A Go \<^verbatim>\<open>[]byte\<close> is either \<^verbatim>\<open>nil\<close> (\<open>None\<close>) or a slice
  (\<open>Some bs\<close>, possibly of length 0); the update code tells the two apart.
\<close>

record User =
  Username :: string
  Email :: string
  PasswordHash :: "byte list option"
  Image :: string
  Bio :: string

text \<open>\<^verbatim>\<open>model.EmailUser\<close>: the projection record, keyed by email.\<close>

record EmailUser =
  EmailUser_Email :: string
  EmailUser_Username :: string

text \<open>The zero value \<^verbatim>\<open>model.User{}\<close>.\<close>

definition zeroUser :: User where
  "zeroUser = \<lparr>Username = [], Email = [], PasswordHash = None, Image = [], Bio = []\<rparr>"

text \<open>
  Go's \<^verbatim>\<open>error\<close> values met in this file: \<^verbatim>\<open>util.NewInputError(field, message)\<close>,
  the store's answer to a failed transaction precondition, any other failure of the store
  or of (un)marshalling, and the \<^verbatim>\<open>expression\<close> package's error for building an
  update that holds no operation.
\<close>

datatype error =
    InputError string string
  | ConstraintViolation
  | StoreError string
  | UnsetParameterError

text \<open>The two tables, \<^verbatim>\<open>UserTableName.Get()\<close> and \<^verbatim>\<open>EmailUserTableName.Get()\<close>.\<close>

datatype Table = UserTableName | EmailUserTableName

text \<open>
  \<^verbatim>\<open>AWSObject\<close>, an attribute map of the store. The model keeps what the map was made
  from: \<^verbatim>\<open>StringKey(name, value)\<close> is the one-attribute key, and the two item
  constructors are the maps \<^verbatim>\<open>dynamodbattribute.MarshalMap\<close> makes of a user and of a
  projection record.
\<close>

datatype AWSObject =
    StringKey string string
  | UserItem User
  | EmailUserItem EmailUser

text \<open>
  \<^verbatim>\<open>dynamodbattribute.MarshalMap\<close> on the two struct types. Both hold strings and a
  byte slice only, which the encoder always accepts; the error result stays in the type
  because the callers test it.
\<close>

definition MarshalMap_User :: "User \<Rightarrow> error + AWSObject" where
  "MarshalMap_User user = Inr (UserItem user)"

definition MarshalMap_EmailUser :: "EmailUser \<Rightarrow> error + AWSObject" where
  "MarshalMap_EmailUser emailUser = Inr (EmailUserItem emailUser)"

subsection \<open>Update expressions\<close>

text \<open>
  \<^verbatim>\<open>expression.Value(v)\<close> for the two Go types the file passes, and the operations an
  \<^verbatim>\<open>expression.UpdateBuilder\<close> collects: \<^verbatim>\<open>update.Set(expression.Name(n), v)\<close> and
  \<^verbatim>\<open>update.Remove(expression.Name(n))\<close>, in the order of the calls.
\<close>

datatype ValueBuilder = Value_string string | Value_bytes "byte list"

datatype operationBuilder = Set string ValueBuilder | Remove string

type_synonym UpdateBuilder = "operationBuilder list"

text \<open>
  \<^verbatim>\<open>expression.Expression\<close>: \<open>updateExpr\<close> is what \<^verbatim>\<open>expr.Update()\<close> returns,
  \<open>None\<close> for Go's \<^verbatim>\<open>nil\<close> (the zero value \<^verbatim>\<open>expression.Expression{}\<close>).
\<close>

record Expression =
  updateExpr :: "UpdateBuilder option"

text \<open>
  Modelled from the spec: \<^verbatim>\<open>IsUpdateBuilderEmpty\<close>, a helper of the service package
  outside this file. The spec has the engine report a no-op when no field differs: the
  builder is empty when no operation was added to it.
\<close>

definition IsUpdateBuilderEmpty :: "UpdateBuilder \<Rightarrow> bool" where
  "IsUpdateBuilderEmpty update = (update = [])"

text \<open>
  \<^verbatim>\<open>expression.NewBuilder().WithUpdate(update).Build()\<close>: the library refuses an update
  builder without operations, and otherwise returns the expression of the operations.
\<close>

definition Build :: "UpdateBuilder \<Rightarrow> error + Expression" where
  "Build update =
     (if update = [] then Inl UnsetParameterError
      else Inr \<lparr>updateExpr = Some update\<rparr>)"

text \<open>\<^verbatim>\<open>bytes.Equal\<close>: a \<^verbatim>\<open>nil\<close> argument is equivalent to an empty slice.\<close>

definition slice_bytes :: "byte list option \<Rightarrow> byte list" where
  "slice_bytes s = (case s of None \<Rightarrow> [] | Some bs \<Rightarrow> bs)"

definition bytes_Equal :: "byte list option \<Rightarrow> byte list option \<Rightarrow> bool" where
  "bytes_Equal a b = (slice_bytes a = slice_bytes b)"

definition buildUserUpdateExpression :: "User \<Rightarrow> User \<Rightarrow> error + Expression" where
  "buildUserUpdateExpression oldUser newUser =
     (let update0 = [];
          update1 =
            (if Email oldUser \<noteq> Email newUser
             then update0 @ [Set ''Email'' (Value_string (Email newUser))]
             else update0);
          update2 =
            (case PasswordHash newUser of
               None \<Rightarrow> update1
             | Some newHash \<Rightarrow>
                 if \<not> bytes_Equal (PasswordHash oldUser) (PasswordHash newUser)
                 then update1 @ [Set ''PasswordHash'' (Value_bytes newHash)]
                 else update1);
          update3 =
            (if Image oldUser \<noteq> Image newUser
             then (if Image newUser \<noteq> []
                   then update2 @ [Set ''Image'' (Value_string (Image newUser))]
                   else update2 @ [Remove ''Image''])
             else update2);
          update4 =
            (if Bio oldUser \<noteq> Bio newUser
             then (if Bio newUser \<noteq> []
                   then update3 @ [Set ''Bio'' (Value_string (Bio newUser))]
                   else update3 @ [Remove ''Bio''])
             else update3)
      in if IsUpdateBuilderEmpty update4 then Inr \<lparr>updateExpr = None\<rparr>
         else Build update4)"

subsection \<open>The store client\<close>

text \<open>
  One operation of a transaction: \<^verbatim>\<open>dynamodb.Put\<close>, \<^verbatim>\<open>dynamodb.Delete\<close> and
  \<^verbatim>\<open>dynamodb.Update\<close>, each with its table, its item or key, and its condition
  expression; an update also carries the operations of its update expression.
\<close>

datatype TransactWriteItem =
    Put Table AWSObject string
  | Delete Table AWSObject string
  | Update Table AWSObject string UpdateBuilder

text \<open>
  A call that reaches the store: a transaction sent to the client, one
  \<^verbatim>\<open>GetItemByKey\<close>, or one \<^verbatim>\<open>BatchGetItems\<close> (which pages by itself).
\<close>

datatype Call =
    TransactWriteItemsCall "TransactWriteItem list"
  | GetItemCall Table AWSObject
  | BatchGetItemCall Table "AWSObject list"

text \<open>
  What the functions of this file take from outside it. \<open>Validate\<close> is
  \<^verbatim>\<open>model.User.Validate\<close>; \<open>TransactWriteItems\<close> is the client's answer to a
  transaction (\<open>None\<close> for success); the two \<open>GetItemByKey\<close> fields are the helper
  \<^verbatim>\<open>GetItemByKey(table, key, &out)\<close> at the two types of \<open>out\<close>, answering an error,
  not found (\<open>Inr None\<close>) or the record; \<open>BatchGetItems\<close> is the paging helper,
  answering one map from table to items per page; \<open>UnmarshalMap\<close> is
  \<^verbatim>\<open>dynamodbattribute.UnmarshalMap\<close> into a user; \<open>MapRange\<close> is the order in which
  Go's \<^verbatim>\<open>range\<close> visits the keys of a map, given in insertion order.
\<close>

record Env =
  Validate :: "User \<Rightarrow> error option"
  TransactWriteItems :: "TransactWriteItem list \<Rightarrow> error option"
  GetItemByKey_EmailUser :: "Table \<Rightarrow> AWSObject \<Rightarrow> error + EmailUser option"
  GetItemByKey_User :: "Table \<Rightarrow> AWSObject \<Rightarrow> error + User option"
  BatchGetItems :: "Table \<Rightarrow> AWSObject list \<Rightarrow> nat \<Rightarrow> error + (Table \<times> AWSObject list) list list"
  UnmarshalMap :: "AWSObject \<Rightarrow> error + User"
  MapRange :: "string list \<Rightarrow> string list"

subsection \<open>Creating and updating a user\<close>

definition PutUser :: "Env \<Rightarrow> User \<Rightarrow> Call list \<times> error option" where
  "PutUser env user =
     (case Validate env user of
        Some err \<Rightarrow> ([], Some err)
      | None \<Rightarrow>
     (case MarshalMap_User user of
        Inl err \<Rightarrow> ([], Some err)
      | Inr userItem \<Rightarrow>
     (let emailUser = \<lparr>EmailUser_Email = Email user, EmailUser_Username = Username user\<rparr>
      in case MarshalMap_EmailUser emailUser of
        Inl err \<Rightarrow> ([], Some err)
      | Inr emailUserItem \<Rightarrow>
     (let transaction =
            [Put UserTableName userItem ''attribute_not_exists(Username)'',
             Put EmailUserTableName emailUserItem ''attribute_not_exists(Email)'']
      in case TransactWriteItems env transaction of
        Some err \<Rightarrow> ([TransactWriteItemsCall transaction], Some err)
      | None \<Rightarrow> ([TransactWriteItemsCall transaction], None)))))"

definition UpdateUser :: "Env \<Rightarrow> User \<Rightarrow> User \<Rightarrow> Call list \<times> error option" where
  "UpdateUser env oldUser newUser =
     (case Validate env newUser of
        Some err \<Rightarrow> ([], Some err)
      | None \<Rightarrow>
     (let emailUser = \<lparr>EmailUser_Email = Email newUser, EmailUser_Username = Username newUser\<rparr>
      in case MarshalMap_EmailUser emailUser of
        Inl err \<Rightarrow> ([], Some err)
      | Inr emailUserItem \<Rightarrow>
     (let transactItems0 = [];
          transactItems1 =
            (if Email oldUser \<noteq> Email newUser
             then transactItems0
                  @ [Put EmailUserTableName emailUserItem ''attribute_not_exists(Email)'']
                  @ [Delete EmailUserTableName (StringKey ''Email'' (Email oldUser))
                       ''attribute_exists(Email)'']
             else transactItems0)
      in case buildUserUpdateExpression oldUser newUser of
        Inl err \<Rightarrow> ([], Some err)
      | Inr expr \<Rightarrow>
     (case updateExpr expr of
        None \<Rightarrow> ([], None)
      | Some update \<Rightarrow>
     (let transactItems2 =
            transactItems1
            @ [Update UserTableName (StringKey ''Username'' (Username oldUser))
                 ''attribute_exists(Username)'' update]
      in case TransactWriteItems env transactItems2 of
        Some err \<Rightarrow> ([TransactWriteItemsCall transactItems2], Some err)
      | None \<Rightarrow> ([TransactWriteItemsCall transactItems2], None))))))"

subsection \<open>Reading users\<close>

definition GetUsernameByEmail :: "Env \<Rightarrow> string \<Rightarrow> Call list \<times> (error + string)" where
  "GetUsernameByEmail env email =
     (let key = StringKey ''Email'' email;
          calls = [GetItemCall EmailUserTableName key]
      in case GetItemByKey_EmailUser env EmailUserTableName key of
        Inl err \<Rightarrow> (calls, Inl err)
      | Inr None \<Rightarrow> (calls, Inl (InputError ''email'' ''not found''))
      | Inr (Some emailUser) \<Rightarrow> (calls, Inr (EmailUser_Username emailUser)))"

definition GetUserByUsername :: "Env \<Rightarrow> string \<Rightarrow> Call list \<times> (error + User)" where
  "GetUserByUsername env username =
     (let key = StringKey ''Username'' username;
          calls = [GetItemCall UserTableName key]
      in case GetItemByKey_User env UserTableName key of
        Inl err \<Rightarrow> (calls, Inl err)
      | Inr None \<Rightarrow> (calls, Inl (InputError ''username'' ''not found''))
      | Inr (Some user) \<Rightarrow> (calls, Inr user))"

definition GetUserByEmail :: "Env \<Rightarrow> string \<Rightarrow> Call list \<times> (error + User)" where
  "GetUserByEmail env email =
     (if email = [] then ([], Inl (InputError ''email'' ''can't be blank''))
      else case GetUsernameByEmail env email of
        (calls1, Inl err) \<Rightarrow> (calls1, Inl err)
      | (calls1, Inr username) \<Rightarrow>
          if username = [] then (calls1, Inl (InputError ''email'' ''not found''))
          else (case GetUserByUsername env username of
                  (calls2, result) \<Rightarrow> (calls1 @ calls2, result)))"

text \<open>
  The three nested loops of \<^verbatim>\<open>GetUserListByUsername\<close> over the pages, the tables of
  a page and the items of a table. Each item is unmarshalled and stored under its
  username, a later item replacing an earlier one; the first item that does not
  unmarshal ends the function with its error.
\<close>

fun unmarshalItems ::
  "Env \<Rightarrow> AWSObject list \<Rightarrow> (string \<rightharpoonup> User) \<Rightarrow> error + (string \<rightharpoonup> User)" where
  "unmarshalItems env [] usersByUsername = Inr usersByUsername"
| "unmarshalItems env (item # items) usersByUsername =
     (case UnmarshalMap env item of
        Inl err \<Rightarrow> Inl err
      | Inr user \<Rightarrow> unmarshalItems env items (usersByUsername(Username user \<mapsto> user)))"

fun unmarshalResponse ::
  "Env \<Rightarrow> (Table \<times> AWSObject list) list \<Rightarrow> (string \<rightharpoonup> User) \<Rightarrow> error + (string \<rightharpoonup> User)" where
  "unmarshalResponse env [] usersByUsername = Inr usersByUsername"
| "unmarshalResponse env ((table, items) # response) usersByUsername =
     (case unmarshalItems env items usersByUsername of
        Inl err \<Rightarrow> Inl err
      | Inr usersByUsername' \<Rightarrow> unmarshalResponse env response usersByUsername')"

fun unmarshalResponses ::
  "Env \<Rightarrow> (Table \<times> AWSObject list) list list \<Rightarrow> (string \<rightharpoonup> User) \<Rightarrow> error + (string \<rightharpoonup> User)" where
  "unmarshalResponses env [] usersByUsername = Inr usersByUsername"
| "unmarshalResponses env (response # responses) usersByUsername =
     (case unmarshalResponse env response usersByUsername of
        Inl err \<Rightarrow> Inl err
      | Inr usersByUsername' \<Rightarrow> unmarshalResponses env responses usersByUsername')"

text \<open>Reading a Go map at a key it may not hold: the zero value when it is absent.\<close>

definition index_or_zero :: "(string \<rightharpoonup> User) \<Rightarrow> string \<Rightarrow> User" where
  "index_or_zero usersByUsername username =
     (case usersByUsername username of None \<Rightarrow> zeroUser | Some user \<Rightarrow> user)"

definition GetUserListByUsername :: "Env \<Rightarrow> string list \<Rightarrow> Call list \<times> (error + User list)" where
  "GetUserListByUsername env usernames =
     (if length usernames = 0 then ([], Inr [])
      else
        let usernameSet = fold (\<lambda>username m. AList.update username True m) usernames [];
            keys = map (StringKey ''Username'') (MapRange env (map fst usernameSet));
            calls = [BatchGetItemCall UserTableName keys]
        in case BatchGetItems env UserTableName keys (length usernames) of
          Inl err \<Rightarrow> (calls, Inl err)
        | Inr responses \<Rightarrow>
            (case unmarshalResponses env responses Map.empty of
               Inl err \<Rightarrow> (calls, Inl err)
             | Inr usersByUsername \<Rightarrow>
                 (calls, Inr (map (index_or_zero usersByUsername) usernames))))"

subsection \<open>Reading a diff\<close>

text \<open>
  The instructions an expression carries (none for the zero expression), the field an
  instruction names, and the instructions of a list that name a given field.
\<close>

definition opsOf :: "Expression \<Rightarrow> operationBuilder list" where
  "opsOf expr = (case updateExpr expr of None \<Rightarrow> [] | Some update \<Rightarrow> update)"

fun opName :: "operationBuilder \<Rightarrow> string" where
  "opName (Set name v) = name"
| "opName (Remove name) = name"

definition instructionsFor :: "string \<Rightarrow> operationBuilder list \<Rightarrow> operationBuilder list" where
  "instructionsFor field ops = filter (\<lambda>op. opName op = field) ops"

text \<open>
  The instructions the engine owes each field, read off the four tests of
  \<^verbatim>\<open>buildUserUpdateExpression\<close> one field at a time, and their concatenation in the
  order of the tests. \<open>buildUserUpdateExpression_diffOps\<close> below proves that the
  function builds exactly this list.
\<close>

definition emailDiff :: "User \<Rightarrow> User \<Rightarrow> operationBuilder list" where
  "emailDiff oldUser newUser =
     (if Email oldUser \<noteq> Email newUser then [Set ''Email'' (Value_string (Email newUser))]
      else [])"

definition passwordDiff :: "User \<Rightarrow> User \<Rightarrow> operationBuilder list" where
  "passwordDiff oldUser newUser =
     (case PasswordHash newUser of
        None \<Rightarrow> []
      | Some newHash \<Rightarrow>
          if slice_bytes (PasswordHash oldUser) = newHash then []
          else [Set ''PasswordHash'' (Value_bytes newHash)])"

definition imageDiff :: "User \<Rightarrow> User \<Rightarrow> operationBuilder list" where
  "imageDiff oldUser newUser =
     (if Image oldUser = Image newUser then []
      else if Image newUser \<noteq> [] then [Set ''Image'' (Value_string (Image newUser))]
      else [Remove ''Image''])"

definition bioDiff :: "User \<Rightarrow> User \<Rightarrow> operationBuilder list" where
  "bioDiff oldUser newUser =
     (if Bio oldUser = Bio newUser then []
      else if Bio newUser \<noteq> [] then [Set ''Bio'' (Value_string (Bio newUser))]
      else [Remove ''Bio''])"

definition diffOps :: "User \<Rightarrow> User \<Rightarrow> operationBuilder list" where
  "diffOps oldUser newUser =
     emailDiff oldUser newUser @ passwordDiff oldUser newUser
     @ imageDiff oldUser newUser @ bioDiff oldUser newUser"

subsection \<open>Reading a batch\<close>

text \<open>
  All items of the pages a batched get answered, in the order the three loops of
  \<^verbatim>\<open>GetUserListByUsername\<close> visit them; the assignment
  \<^verbatim>\<open>usersByUsername[user.Username] = user\<close> as a function; and the user a list of
  unmarshalled users leaves under a username: the last one of that name, or the zero
  value.
\<close>

definition allItems :: "(Table \<times> AWSObject list) list list \<Rightarrow> AWSObject list" where
  "allItems responses = concat (map (\<lambda>response. concat (map snd response)) responses)"

definition putByUsername :: "User \<Rightarrow> (string \<rightharpoonup> User) \<Rightarrow> (string \<rightharpoonup> User)" where
  "putByUsername user usersByUsername = usersByUsername(Username user \<mapsto> user)"

definition lastNamed :: "User list \<Rightarrow> string \<Rightarrow> User" where
  "lastNamed users username =
     (case find (\<lambda>user. Username user = username) (rev users) of
        None \<Rightarrow> zeroUser
      | Some user \<Rightarrow> user)"

subsection \<open>Sample users and stores\<close>

text \<open>
  A stored user \<open>userA\<close>, two edits of it, and environments to run the functions in:
  \<open>env_store\<close> is a store that holds \<open>userA\<close> and its projection record, accepts every
  user and every transaction, and visits map keys in reverse insertion order;
  \<open>env_dangling\<close> has lost the user record but kept the projection record;
  \<open>env_taken\<close> answers every transaction with a failed precondition;
  \<open>env_invalid\<close> has a validator that rejects every user.
\<close>

definition userA :: User where
  "userA = \<lparr>Username = ''a'', Email = ''a@example.com'', PasswordHash = Some [1, 2, 3],
      Image = [], Bio = ''hello''\<rparr>"

definition userA_new :: User where
  "userA_new = \<lparr>Username = ''a'', Email = ''a2@example.com'', PasswordHash = None,
      Image = ''pic.png'', Bio = []\<rparr>"

definition userA_emptyHash :: User where
  "userA_emptyHash = \<lparr>Username = ''a'', Email = ''a@example.com'', PasswordHash = Some [],
      Image = [], Bio = ''hello''\<rparr>"

definition userA_same :: User where
  "userA_same = \<lparr>Username = ''a'', Email = ''a@example.com'', PasswordHash = None,
      Image = [], Bio = ''hello''\<rparr>"

definition env_store :: Env where
  "env_store =
     \<lparr>Validate = (\<lambda>user. None),
      TransactWriteItems = (\<lambda>items. None),
      GetItemByKey_EmailUser = (\<lambda>table key.
        if table = EmailUserTableName \<and> key = StringKey ''Email'' ''a@example.com''
        then Inr (Some \<lparr>EmailUser_Email = ''a@example.com'', EmailUser_Username = ''a''\<rparr>)
        else Inr None),
      GetItemByKey_User = (\<lambda>table key.
        if table = UserTableName \<and> key = StringKey ''Username'' ''a''
        then Inr (Some userA) else Inr None),
      BatchGetItems = (\<lambda>table keys n.
        Inr [[(table,
               map UserItem
                 (filter (\<lambda>user. StringKey ''Username'' (Username user) \<in> set keys)
                    [userA]))]]),
      UnmarshalMap = (\<lambda>item. case item of UserItem user \<Rightarrow> Inr user
                                | StringKey name v \<Rightarrow> Inl (StoreError ''unmarshal'')
                                | EmailUserItem emailUser \<Rightarrow> Inl (StoreError ''unmarshal'')),
      MapRange = rev\<rparr>"

definition env_dangling :: Env where
  "env_dangling = env_store\<lparr>GetItemByKey_User := (\<lambda>table key. Inr None)\<rparr>"

definition env_taken :: Env where
  "env_taken = env_store\<lparr>TransactWriteItems := (\<lambda>items. Some ConstraintViolation)\<rparr>"

definition env_invalid :: Env where
  "env_invalid =
     env_store\<lparr>Validate := (\<lambda>user. Some (InputError ''email'' ''can't be blank''))\<rparr>"

section \<open>Properties\<close>

subsection \<open>The diff engine builds the field-wise diff\<close>

lemma build_step:
  "(if IsUpdateBuilderEmpty ops then Inr \<lparr>updateExpr = None\<rparr> else Build ops)
     = Inr \<lparr>updateExpr = (if ops = [] then None else Some ops)\<rparr>"
  by (simp add: IsUpdateBuilderEmpty_def Build_def)

lemma buildUserUpdateExpression_diffOps:
  "buildUserUpdateExpression oldUser newUser =
     Inr \<lparr>updateExpr = (if diffOps oldUser newUser = [] then None
                          else Some (diffOps oldUser newUser))\<rparr>"
proof -
  have u1: "(if Email oldUser \<noteq> Email newUser
             then [] @ [Set ''Email'' (Value_string (Email newUser))] else [])
            = emailDiff oldUser newUser"
    by (simp add: emailDiff_def)
  have u2: "\<And>u. (case PasswordHash newUser of None \<Rightarrow> u
             | Some newHash \<Rightarrow>
                 if \<not> bytes_Equal (PasswordHash oldUser) (PasswordHash newUser)
                 then u @ [Set ''PasswordHash'' (Value_bytes newHash)] else u)
            = u @ passwordDiff oldUser newUser"
    by (simp add: passwordDiff_def bytes_Equal_def slice_bytes_def split: option.split)
  have u3: "\<And>u. (if Image oldUser \<noteq> Image newUser
             then (if Image newUser \<noteq> []
                   then u @ [Set ''Image'' (Value_string (Image newUser))]
                   else u @ [Remove ''Image''])
             else u) = u @ imageDiff oldUser newUser"
    by (simp add: imageDiff_def)
  have u4: "\<And>u. (if Bio oldUser \<noteq> Bio newUser
             then (if Bio newUser \<noteq> []
                   then u @ [Set ''Bio'' (Value_string (Bio newUser))]
                   else u @ [Remove ''Bio''])
             else u) = u @ bioDiff oldUser newUser"
    by (simp add: bioDiff_def)
  show ?thesis
    unfolding buildUserUpdateExpression_def Let_def u1 u2 u3 u4 build_step
    by (simp add: diffOps_def)
qed

lemma opsOf_build:
  "opsOf \<lparr>updateExpr = (if ops = [] then None else Some ops)\<rparr> = ops"
  by (simp add: opsOf_def)

lemma instructionsFor_diffOps:
  "instructionsFor ''Email'' (diffOps oldUser newUser) = emailDiff oldUser newUser"
  "instructionsFor ''PasswordHash'' (diffOps oldUser newUser) = passwordDiff oldUser newUser"
  "instructionsFor ''Image'' (diffOps oldUser newUser) = imageDiff oldUser newUser"
  "instructionsFor ''Bio'' (diffOps oldUser newUser) = bioDiff oldUser newUser"
  by (simp_all add: diffOps_def emailDiff_def passwordDiff_def imageDiff_def bioDiff_def
      instructionsFor_def split: option.split)

lemma diffOps_email_changed:
  "Email oldUser \<noteq> Email newUser \<Longrightarrow> diffOps oldUser newUser \<noteq> []"
  by (simp add: diffOps_def emailDiff_def)

lemma diffOps_unchanged:
  assumes "Email oldUser = Email newUser"
    and "PasswordHash newUser = None \<or> bytes_Equal (PasswordHash oldUser) (PasswordHash newUser)"
    and "Image oldUser = Image newUser"
    and "Bio oldUser = Bio newUser"
  shows "diffOps oldUser newUser = []"
  using assms
  by (auto simp add: diffOps_def emailDiff_def passwordDiff_def imageDiff_def bioDiff_def
      bytes_Equal_def slice_bytes_def split: option.split)

subsection \<open>What an update sends to the store\<close>

lemma case_error_option:
  "(case r of None \<Rightarrow> (c, None) | Some err \<Rightarrow> (c, Some err)) = (c, r)"
  by (cases r) simp_all

lemma UpdateUser_valid:
  assumes "Validate env newUser = None"
  shows "UpdateUser env oldUser newUser =
    (if diffOps oldUser newUser = [] then ([], None)
     else ([TransactWriteItemsCall
              ((if Email oldUser \<noteq> Email newUser
                then [Put EmailUserTableName
                        (EmailUserItem \<lparr>EmailUser_Email = Email newUser,
                                        EmailUser_Username = Username newUser\<rparr>)
                        ''attribute_not_exists(Email)'',
                      Delete EmailUserTableName (StringKey ''Email'' (Email oldUser))
                        ''attribute_exists(Email)'']
                else [])
               @ [Update UserTableName (StringKey ''Username'' (Username oldUser))
                    ''attribute_exists(Username)'' (diffOps oldUser newUser)])],
           TransactWriteItems env
              ((if Email oldUser \<noteq> Email newUser
                then [Put EmailUserTableName
                        (EmailUserItem \<lparr>EmailUser_Email = Email newUser,
                                        EmailUser_Username = Username newUser\<rparr>)
                        ''attribute_not_exists(Email)'',
                      Delete EmailUserTableName (StringKey ''Email'' (Email oldUser))
                        ''attribute_exists(Email)'']
                else [])
               @ [Update UserTableName (StringKey ''Username'' (Username oldUser))
                    ''attribute_exists(Username)'' (diffOps oldUser newUser)])))"
  unfolding UpdateUser_def Let_def
  by (simp add: assms MarshalMap_EmailUser_def buildUserUpdateExpression_diffOps
      case_error_option)

lemma UpdateUser_invalid:
  "Validate env newUser = Some err \<Longrightarrow> UpdateUser env oldUser newUser = ([], Some err)"
  by (simp add: UpdateUser_def)

lemma PutUser_valid:
  assumes "Validate env user = None"
  shows "PutUser env user =
     ([TransactWriteItemsCall
         [Put UserTableName (UserItem user) ''attribute_not_exists(Username)'',
          Put EmailUserTableName
            (EmailUserItem \<lparr>EmailUser_Email = Email user, EmailUser_Username = Username user\<rparr>)
            ''attribute_not_exists(Email)'']],
      TransactWriteItems env
        [Put UserTableName (UserItem user) ''attribute_not_exists(Username)'',
         Put EmailUserTableName
           (EmailUserItem \<lparr>EmailUser_Email = Email user, EmailUser_Username = Username user\<rparr>)
           ''attribute_not_exists(Email)''])"
  unfolding PutUser_def Let_def
  by (simp add: assms MarshalMap_User_def MarshalMap_EmailUser_def case_error_option)

text \<open>The sample data, evaluated.\<close>

lemma diffOps_userA_new:
  "diffOps userA userA_new =
     [Set ''Email'' (Value_string ''a2@example.com''),
      Set ''Image'' (Value_string ''pic.png''), Remove ''Bio'']"
  by (simp add: diffOps_def emailDiff_def passwordDiff_def imageDiff_def bioDiff_def
      userA_def userA_new_def)

lemma diffOps_userA_emptyHash:
  "diffOps userA userA_emptyHash = [Set ''PasswordHash'' (Value_bytes [])]"
  by (simp add: diffOps_def emailDiff_def passwordDiff_def imageDiff_def bioDiff_def
      userA_def userA_emptyHash_def slice_bytes_def)

lemma diffOps_userA_same: "diffOps userA userA_same = []"
  by (simp add: diffOps_def emailDiff_def passwordDiff_def imageDiff_def bioDiff_def
      userA_def userA_same_def)

lemma env_simps:
  "Validate env_store = (\<lambda>user. None)"
  "TransactWriteItems env_store = (\<lambda>items. None)"
  "Validate env_taken = (\<lambda>user. None)"
  "TransactWriteItems env_taken = (\<lambda>items. Some ConstraintViolation)"
  "Validate env_invalid = (\<lambda>user. Some (InputError ''email'' ''can't be blank''))"
  by (simp_all add: env_store_def env_taken_def env_invalid_def)

subsection \<open>What a batched read returns\<close>

lemma unmarshalItems_ok:
  "map (UnmarshalMap env) items = map Inr users \<Longrightarrow>
     unmarshalItems env items m = Inr (fold putByUsername users m)"
proof (induction items arbitrary: users m)
  case Nil
  then show ?case by simp
next
  case (Cons item items)
  then obtain user rest where u: "users = user # rest"
    "UnmarshalMap env item = Inr user" "map (UnmarshalMap env) items = map Inr rest"
    by (cases users) auto
  show ?case
    by (simp add: u Cons.IH [OF u(3)] putByUsername_def)
qed

lemma unmarshalResponse_ok:
  "map (UnmarshalMap env) (concat (map snd response)) = map Inr users \<Longrightarrow>
     unmarshalResponse env response m = Inr (fold putByUsername users m)"
proof (induction response arbitrary: users m)
  case Nil
  then show ?case by simp
next
  case (Cons entry response)
  obtain table items where e: "entry = (table, items)"
    by (cases entry)
  from Cons.prems have "map (UnmarshalMap env) items
      @ map (UnmarshalMap env) (concat (map snd response)) = map Inr users"
    by (simp add: e)
  then obtain us vs where s: "users = us @ vs"
    "map (UnmarshalMap env) items = map Inr us"
    "map (UnmarshalMap env) (concat (map snd response)) = map Inr vs"
    by (auto simp add: append_eq_map_conv)
  show ?case
    by (simp add: e s(1) unmarshalItems_ok [OF s(2)] Cons.IH [OF s(3)])
qed

lemma unmarshalResponses_ok:
  "map (UnmarshalMap env) (allItems responses) = map Inr users \<Longrightarrow>
     unmarshalResponses env responses m = Inr (fold putByUsername users m)"
proof (induction responses arbitrary: users m)
  case Nil
  then show ?case by (simp add: allItems_def)
next
  case (Cons response responses)
  from Cons.prems have "map (UnmarshalMap env) (concat (map snd response))
      @ map (UnmarshalMap env) (allItems responses) = map Inr users"
    by (simp add: allItems_def)
  then obtain us vs where s: "users = us @ vs"
    "map (UnmarshalMap env) (concat (map snd response)) = map Inr us"
    "map (UnmarshalMap env) (allItems responses) = map Inr vs"
    by (auto simp add: append_eq_map_conv)
  show ?case
    by (simp add: s(1) unmarshalResponse_ok [OF s(2)] Cons.IH [OF s(3)])
qed

lemma index_or_zero_fold:
  "index_or_zero (fold putByUsername users Map.empty) username
     = lastNamed users username"
  by (induction users rule: rev_induct)
    (simp_all add: index_or_zero_def lastNamed_def putByUsername_def)

lemma usernameSet_keys:
  "distinct (map fst acc) \<Longrightarrow>
     distinct (map fst (fold (\<lambda>username m. AList.update username True m) usernames acc)) \<and>
     set (map fst (fold (\<lambda>username m. AList.update username True m) usernames acc))
       = set (map fst acc) \<union> set usernames"
proof (induction usernames arbitrary: acc)
  case Nil
  then show ?case by simp
next
  case (Cons username usernames)
  have d: "distinct (map fst (AList.update username True acc))"
    using Cons.prems by (rule distinct_update)
  show ?case
    using Cons.IH [OF d] by (auto simp add: dom_update)
qed

lemma inj_StringKey: "inj (StringKey name)"
  by (simp add: inj_def)

section \<open>The claims\<close>

text \<open>
  C1. When the two users differ in their email, \<^verbatim>\<open>UpdateUser\<close> on a new user that passes
  validation issues exactly one store call, one \<^verbatim>\<open>TransactWriteItems\<close>, whose items are,
  in this order: the put of the projection record of the new email and the new username
  under the condition \<^verbatim>\<open>attribute_not_exists(Email)\<close>, the delete of the projection
  record keyed by the old email under \<^verbatim>\<open>attribute_exists(Email)\<close>, and the update of
  the user record with the expression the diff engine built. The result is the store's
  answer to that transaction. A new user that fails validation issues no call at all, so
  the three writes are never split across calls.
\<close>

theorem UpdateUser_email_change_single_transaction:
  assumes "Email oldUser \<noteq> Email newUser"
  shows "(Validate env newUser = None \<longrightarrow>
            (\<exists>update. buildUserUpdateExpression oldUser newUser
                         = Inr \<lparr>updateExpr = Some update\<rparr> \<and>
               UpdateUser env oldUser newUser =
                 ([TransactWriteItemsCall
                     [Put EmailUserTableName
                        (EmailUserItem \<lparr>EmailUser_Email = Email newUser,
                                        EmailUser_Username = Username newUser\<rparr>)
                        ''attribute_not_exists(Email)'',
                      Delete EmailUserTableName (StringKey ''Email'' (Email oldUser))
                        ''attribute_exists(Email)'',
                      Update UserTableName (StringKey ''Username'' (Username oldUser))
                        ''attribute_exists(Username)'' update]],
                  TransactWriteItems env
                     [Put EmailUserTableName
                        (EmailUserItem \<lparr>EmailUser_Email = Email newUser,
                                        EmailUser_Username = Username newUser\<rparr>)
                        ''attribute_not_exists(Email)'',
                      Delete EmailUserTableName (StringKey ''Email'' (Email oldUser))
                        ''attribute_exists(Email)'',
                      Update UserTableName (StringKey ''Username'' (Username oldUser))
                        ''attribute_exists(Username)'' update]))) \<and>
         (\<forall>err. Validate env newUser = Some err \<longrightarrow>
            UpdateUser env oldUser newUser = ([], Some err))"
proof -
  have ne: "diffOps oldUser newUser \<noteq> []"
    using assms by (rule diffOps_email_changed)
  show ?thesis
    by (simp add: buildUserUpdateExpression_diffOps UpdateUser_valid UpdateUser_invalid ne assms)
qed

theorem UpdateUser_email_change_single_transaction_witness:
  "Email userA \<noteq> Email userA_new \<and>
   UpdateUser env_store userA userA_new =
     ([TransactWriteItemsCall
         [Put EmailUserTableName
            (EmailUserItem \<lparr>EmailUser_Email = ''a2@example.com'', EmailUser_Username = ''a''\<rparr>)
            ''attribute_not_exists(Email)'',
          Delete EmailUserTableName (StringKey ''Email'' ''a@example.com'')
            ''attribute_exists(Email)'',
          Update UserTableName (StringKey ''Username'' ''a'') ''attribute_exists(Username)''
            [Set ''Email'' (Value_string ''a2@example.com''),
             Set ''Image'' (Value_string ''pic.png''), Remove ''Bio'']]],
      None) \<and>
   UpdateUser env_invalid userA userA_new = ([], Some (InputError ''email'' ''can't be blank''))"
proof -
  have ne: "Email userA \<noteq> Email userA_new"
    by (simp add: userA_def userA_new_def)
  have b: "buildUserUpdateExpression userA userA_new =
      Inr \<lparr>updateExpr = Some [Set ''Email'' (Value_string ''a2@example.com''),
             Set ''Image'' (Value_string ''pic.png''), Remove ''Bio'']\<rparr>"
    by (simp add: buildUserUpdateExpression_diffOps diffOps_userA_new)
  have f: "Email userA = ''a@example.com''" "Email userA_new = ''a2@example.com''"
    "Username userA = ''a''" "Username userA_new = ''a''"
    by (simp_all add: userA_def userA_new_def)
  show ?thesis
    using UpdateUser_email_change_single_transaction [OF ne, of env_store]
      UpdateUser_email_change_single_transaction [OF ne, of env_invalid] ne
    by (simp add: b f env_simps)
qed

text \<open>
  Where C2 fails: the store \<open>env_dangling\<close> holds the projection record of
  \<^verbatim>\<open>a@example.com\<close> but no user record of its username. \<^verbatim>\<open>GetUserByEmail\<close> answers
  with the not-found input error of \<^verbatim>\<open>GetUserByUsername\<close>, not with a failure of its
  own kind.
\<close>

theorem GetUserByEmail_dangling_not_found:
  "GetUserByEmail env_dangling ''a@example.com'' =
     ([GetItemCall EmailUserTableName (StringKey ''Email'' ''a@example.com''),
       GetItemCall UserTableName (StringKey ''Username'' ''a'')],
      Inl (InputError ''username'' ''not found''))"
  by (simp add: GetUserByEmail_def GetUsernameByEmail_def GetUserByUsername_def Let_def
      env_dangling_def env_store_def)

text \<open>
  C2, amended. For a non-empty email: when the projection table holds no record of the
  email, \<^verbatim>\<open>GetUserByEmail\<close> fails with the input error \<^verbatim>\<open>(email, not found)\<close> after
  the one projection lookup; when the projection record exists with a non-empty username
  of which the user table holds no record, it fails, after the two lookups, with the
  input error \<^verbatim>\<open>(username, not found)\<close> of \<^verbatim>\<open>GetUserByUsername\<close>.
\<close>

theorem GetUserByEmail_failures:
  assumes "email \<noteq> []"
  shows "(GetItemByKey_EmailUser env EmailUserTableName (StringKey ''Email'' email) = Inr None \<longrightarrow>
            GetUserByEmail env email =
              ([GetItemCall EmailUserTableName (StringKey ''Email'' email)],
               Inl (InputError ''email'' ''not found''))) \<and>
         (\<forall>emailUser.
            GetItemByKey_EmailUser env EmailUserTableName (StringKey ''Email'' email)
              = Inr (Some emailUser) \<and>
            EmailUser_Username emailUser \<noteq> [] \<and>
            GetItemByKey_User env UserTableName
              (StringKey ''Username'' (EmailUser_Username emailUser)) = Inr None \<longrightarrow>
            GetUserByEmail env email =
              ([GetItemCall EmailUserTableName (StringKey ''Email'' email),
                GetItemCall UserTableName (StringKey ''Username'' (EmailUser_Username emailUser))],
               Inl (InputError ''username'' ''not found'')))"
  using assms
  by (simp add: GetUserByEmail_def GetUsernameByEmail_def GetUserByUsername_def Let_def)

theorem GetUserByEmail_failures_witness:
  "GetUserByEmail env_store ''b@example.com'' =
     ([GetItemCall EmailUserTableName (StringKey ''Email'' ''b@example.com'')],
      Inl (InputError ''email'' ''not found'')) \<and>
   GetUserByEmail env_dangling ''a@example.com'' =
     ([GetItemCall EmailUserTableName (StringKey ''Email'' ''a@example.com''),
       GetItemCall UserTableName (StringKey ''Username'' ''a'')],
      Inl (InputError ''username'' ''not found''))"
proof -
  have n1: "''b@example.com'' \<noteq> []" and n2: "''a@example.com'' \<noteq> []"
    by simp_all
  have g1: "GetItemByKey_EmailUser env_store EmailUserTableName
      (StringKey ''Email'' ''b@example.com'') = Inr None"
    by (simp add: env_store_def)
  have g2: "GetItemByKey_EmailUser env_dangling EmailUserTableName
      (StringKey ''Email'' ''a@example.com'')
      = Inr (Some \<lparr>EmailUser_Email = ''a@example.com'', EmailUser_Username = ''a''\<rparr>)"
    by (simp add: env_dangling_def env_store_def)
  have g3: "GetItemByKey_User env_dangling UserTableName (StringKey ''Username'' ''a'') = Inr None"
    by (simp add: env_dangling_def env_store_def)
  show ?thesis
    using GetUserByEmail_failures [OF n1, of env_store]
      GetUserByEmail_failures [OF n2, of env_dangling] g1 g2 g3
    by simp
qed

text \<open>
  C3. \<^verbatim>\<open>PutUser\<close> at a store that answers the transaction with a failed
  precondition: the caller receives the store's error as it is, not an input error.
\<close>

theorem PutUser_conflict_raw_error:
  "PutUser env_taken userA =
     ([TransactWriteItemsCall
         [Put UserTableName (UserItem userA) ''attribute_not_exists(Username)'',
          Put EmailUserTableName
            (EmailUserItem \<lparr>EmailUser_Email = ''a@example.com'', EmailUser_Username = ''a''\<rparr>)
            ''attribute_not_exists(Email)'']],
      Some ConstraintViolation)"
proof -
  have f: "Email userA = ''a@example.com''" "Username userA = ''a''"
    by (simp_all add: userA_def)
  show ?thesis
    by (simp add: PutUser_valid env_simps f)
qed

text \<open>
  C4. When the two users differ in their email, the expression the diff engine builds is
  not the zero expression: its update is non-empty and its only instruction for the
  email field is the \<open>Set\<close> of the new email. So \<^verbatim>\<open>UpdateUser\<close> never takes the
  no-op return there: on a new user that passes validation its one transaction ends with
  the update of the user record carrying that expression.
\<close>

theorem email_change_forces_user_update:
  assumes "Email oldUser \<noteq> Email newUser"
  shows "\<exists>update. buildUserUpdateExpression oldUser newUser = Inr \<lparr>updateExpr = Some update\<rparr> \<and>
           update \<noteq> [] \<and>
           instructionsFor ''Email'' update = [Set ''Email'' (Value_string (Email newUser))] \<and>
           (Validate env newUser = None \<longrightarrow>
              (\<exists>items. fst (UpdateUser env oldUser newUser) =
                 [TransactWriteItemsCall
                    (items @ [Update UserTableName (StringKey ''Username'' (Username oldUser))
                                ''attribute_exists(Username)'' update])]))"
proof -
  have ne: "diffOps oldUser newUser \<noteq> []"
    using assms by (rule diffOps_email_changed)
  have em: "instructionsFor ''Email'' (diffOps oldUser newUser)
      = [Set ''Email'' (Value_string (Email newUser))]"
    using assms by (simp add: instructionsFor_diffOps emailDiff_def)
  show ?thesis
    by (simp add: buildUserUpdateExpression_diffOps UpdateUser_valid ne em)
qed

theorem email_change_forces_user_update_witness:
  "Email userA \<noteq> Email userA_new \<and>
   buildUserUpdateExpression userA userA_new =
      Inr \<lparr>updateExpr = Some [Set ''Email'' (Value_string ''a2@example.com''),
             Set ''Image'' (Value_string ''pic.png''), Remove ''Bio'']\<rparr> \<and>
   (\<exists>items. fst (UpdateUser env_store userA userA_new) =
      [TransactWriteItemsCall
         (items @ [Update UserTableName (StringKey ''Username'' ''a'')
                     ''attribute_exists(Username)''
                     [Set ''Email'' (Value_string ''a2@example.com''),
                      Set ''Image'' (Value_string ''pic.png''), Remove ''Bio'']])])"
proof -
  have ne: "Email userA \<noteq> Email userA_new"
    by (simp add: userA_def userA_new_def)
  have b: "buildUserUpdateExpression userA userA_new =
      Inr \<lparr>updateExpr = Some [Set ''Email'' (Value_string ''a2@example.com''),
             Set ''Image'' (Value_string ''pic.png''), Remove ''Bio'']\<rparr>"
    by (simp add: buildUserUpdateExpression_diffOps diffOps_userA_new)
  have f: "Username userA = ''a''"
    by (simp add: userA_def)
  show ?thesis
    using email_change_forces_user_update [OF ne, of env_store] ne
    by (simp add: b f env_simps)
qed

text \<open>
  C5. When the new user passes validation and no field differs under the engine's
  policies (same email, same image, same bio, and a password hash that is \<^verbatim>\<open>nil\<close> or
  equal to the old one under \<^verbatim>\<open>bytes.Equal\<close>), \<^verbatim>\<open>UpdateUser\<close> issues no store call
  and returns \<^verbatim>\<open>nil\<close>.
\<close>

theorem UpdateUser_no_difference_no_write:
  assumes "Validate env newUser = None"
    and "Email oldUser = Email newUser"
    and "PasswordHash newUser = None \<or> bytes_Equal (PasswordHash oldUser) (PasswordHash newUser)"
    and "Image oldUser = Image newUser"
    and "Bio oldUser = Bio newUser"
  shows "UpdateUser env oldUser newUser = ([], None)"
  by (simp add: UpdateUser_valid [OF assms(1)] diffOps_unchanged [OF assms(2-5)])

theorem UpdateUser_no_difference_no_write_witness:
  "Validate env_store userA_same = None \<and> Email userA = Email userA_same \<and>
   PasswordHash userA_same = None \<and> Image userA = Image userA_same \<and>
   Bio userA = Bio userA_same \<and> UpdateUser env_store userA userA_same = ([], None)"
proof -
  have h: "Validate env_store userA_same = None" "Email userA = Email userA_same"
    "PasswordHash userA_same = None" "Image userA = Image userA_same"
    "Bio userA = Bio userA_same"
    by (simp_all add: env_simps userA_def userA_same_def)
  show ?thesis
    using UpdateUser_no_difference_no_write [of env_store userA_same userA] h
    by simp
qed

text \<open>
  C6. \<^verbatim>\<open>GetUserListByUsername\<close> on the empty list returns the empty list and issues no
  call. On a non-empty list, provided ranging over a Go map visits each key once, it
  issues one batched get whose keys are the usernames of the input without repetition;
  and whenever that get succeeds and its items unmarshal to the users \<open>users\<close>, the
  result has one entry for each input element, in the order of the input: the user
  returned under that username, or the zero value when none was returned.
\<close>

theorem GetUserListByUsername_batch:
  assumes range: "\<And>ks. mset (MapRange env ks) = mset ks"
  shows "GetUserListByUsername env [] = ([], Inr []) \<and>
     (usernames \<noteq> [] \<longrightarrow>
        (\<exists>keys. distinct keys \<and>
           set keys = StringKey ''Username'' ` set usernames \<and>
           fst (GetUserListByUsername env usernames) = [BatchGetItemCall UserTableName keys] \<and>
           (\<forall>responses users.
              BatchGetItems env UserTableName keys (length usernames) = Inr responses \<and>
              map (UnmarshalMap env) (allItems responses) = map Inr users \<longrightarrow>
              snd (GetUserListByUsername env usernames)
                = Inr (map (lastNamed users) usernames))))"
proof (intro conjI impI)
  show "GetUserListByUsername env [] = ([], Inr [])"
    by (simp add: GetUserListByUsername_def)
next
  assume ne: "usernames \<noteq> []"
  define usernameSet where
    "usernameSet = fold (\<lambda>username m. AList.update username True m) usernames []"
  define names where "names = MapRange env (map fst usernameSet)"
  define keys where "keys = map (StringKey ''Username'') names"
  have "distinct (map fst usernameSet) \<and> set (map fst usernameSet) = set usernames"
    using usernameSet_keys [of "[]" usernames] by (simp add: usernameSet_def)
  moreover have "mset names = mset (map fst usernameSet)"
    by (simp add: names_def range)
  ultimately have n: "distinct names" "set names = set usernames"
    using mset_eq_imp_distinct_iff mset_eq_setD by blast+
  have k: "distinct keys" "set keys = StringKey ''Username'' ` set usernames"
    using n by (simp_all add: keys_def distinct_map inj_on_def)
  have calls: "fst (GetUserListByUsername env usernames) = [BatchGetItemCall UserTableName keys]"
    using ne
    by (simp add: GetUserListByUsername_def Let_def keys_def names_def usernameSet_def
        split: sum.split)
  have result: "snd (GetUserListByUsername env usernames) = Inr (map (lastNamed users) usernames)"
    if "BatchGetItems env UserTableName keys (length usernames) = Inr responses"
      and "map (UnmarshalMap env) (allItems responses) = map Inr users"
    for responses users
  proof -
    have b: "BatchGetItems env UserTableName
        (map (StringKey ''Username'')
           (MapRange env (map fst (fold (\<lambda>username m. AList.update username True m) usernames []))))
        (length usernames) = Inr responses"
      using that(1) by (simp add: keys_def names_def usernameSet_def)
    show ?thesis
      using ne
      by (simp add: GetUserListByUsername_def Let_def b unmarshalResponses_ok [OF that(2)]
          index_or_zero_fold [abs_def])
  qed
  show "\<exists>keys. distinct keys \<and>
           set keys = StringKey ''Username'' ` set usernames \<and>
           fst (GetUserListByUsername env usernames) = [BatchGetItemCall UserTableName keys] \<and>
           (\<forall>responses users.
              BatchGetItems env UserTableName keys (length usernames) = Inr responses \<and>
              map (UnmarshalMap env) (allItems responses) = map Inr users \<longrightarrow>
              snd (GetUserListByUsername env usernames)
                = Inr (map (lastNamed users) usernames))"
    using k calls result by blast
qed

theorem GetUserListByUsername_batch_witness:
  "GetUserListByUsername env_store [''a'', ''a'', ''b''] =
     ([BatchGetItemCall UserTableName
         [StringKey ''Username'' ''b'', StringKey ''Username'' ''a'']],
      Inr [userA, userA, zeroUser])"
proof -
  let ?names = "[''a'', ''a'', ''b'']"
  let ?keys = "[StringKey ''Username'' ''b'', StringKey ''Username'' ''a'']"
  have p: "\<And>ks. mset (MapRange env_store ks) = mset ks"
    by (simp add: env_store_def)
  have ne: "?names \<noteq> []"
    by simp
  obtain keys where k: "fst (GetUserListByUsername env_store ?names)
        = [BatchGetItemCall UserTableName keys]"
    and r: "\<And>responses users.
        BatchGetItems env_store UserTableName keys (length ?names) = Inr responses \<Longrightarrow>
        map (UnmarshalMap env_store) (allItems responses) = map Inr users \<Longrightarrow>
        snd (GetUserListByUsername env_store ?names) = Inr (map (lastNamed users) ?names)"
    using GetUserListByUsername_batch [OF p, of ?names] ne by blast
  have f: "fst (GetUserListByUsername env_store ?names) = [BatchGetItemCall UserTableName ?keys]"
    by (simp add: GetUserListByUsername_def Let_def env_store_def split: sum.split)
  have keys: "keys = ?keys"
    using k f by simp
  have b: "BatchGetItems env_store UserTableName keys (length ?names)
      = Inr [[(UserTableName, [UserItem userA])]]"
    by (simp add: keys env_store_def userA_def)
  have u: "map (UnmarshalMap env_store) (allItems [[(UserTableName, [UserItem userA])]])
      = map Inr [userA]"
    by (simp add: allItems_def env_store_def)
  have l: "lastNamed [userA] ''a'' = userA" "lastNamed [userA] ''b'' = zeroUser"
    by (simp_all add: lastNamed_def userA_def)
  have s: "snd (GetUserListByUsername env_store ?names) = Inr [userA, userA, zeroUser]"
    using r [OF b u] by (simp add: l)
  show ?thesis
    using f s by (simp add: prod_eq_iff)
qed

text \<open>
  Where C7 fails: the new password hash is a slice of length 0 that is not \<^verbatim>\<open>nil\<close>,
  the old one has three bytes. The engine emits the \<open>Set\<close> of the empty value.
\<close>

theorem password_set_for_empty_credential:
  "PasswordHash userA_emptyHash = Some [] \<and>
   buildUserUpdateExpression userA userA_emptyHash =
     Inr \<lparr>updateExpr = Some [Set ''PasswordHash'' (Value_bytes [])]\<rparr>"
proof -
  have "PasswordHash userA_emptyHash = Some []"
    by (simp add: userA_emptyHash_def)
  moreover have "buildUserUpdateExpression userA userA_emptyHash =
     Inr \<lparr>updateExpr = Some [Set ''PasswordHash'' (Value_bytes [])]\<rparr>"
    by (simp add: buildUserUpdateExpression_diffOps diffOps_userA_emptyHash)
  ultimately show ?thesis by simp
qed

text \<open>
  C7, amended. The expression the diff engine builds holds the \<open>Set\<close> of the new
  password hash exactly when the new hash is not \<^verbatim>\<open>nil\<close> (a slice of length 0 counts
  as present) and differs from the old one under \<^verbatim>\<open>bytes.Equal\<close>; otherwise it holds
  no instruction for the field. It never holds the \<open>Remove\<close> of the password hash.
\<close>

theorem password_diff_policy:
  "\<exists>expr. buildUserUpdateExpression oldUser newUser = Inr expr \<and>
     instructionsFor ''PasswordHash'' (opsOf expr) =
       (if PasswordHash newUser \<noteq> None
           \<and> \<not> bytes_Equal (PasswordHash oldUser) (PasswordHash newUser)
        then [Set ''PasswordHash'' (Value_bytes (slice_bytes (PasswordHash newUser)))]
        else []) \<and>
     Remove ''PasswordHash'' \<notin> set (opsOf expr)"
proof -
  have "Remove ''PasswordHash'' \<notin> set (instructionsFor ''PasswordHash'' (diffOps oldUser newUser))"
    by (simp add: instructionsFor_diffOps passwordDiff_def split: option.split)
  then have r: "Remove ''PasswordHash'' \<notin> set (diffOps oldUser newUser)"
    by (simp add: instructionsFor_def)
  show ?thesis
    by (simp add: buildUserUpdateExpression_diffOps opsOf_build instructionsFor_diffOps r
        passwordDiff_def bytes_Equal_def slice_bytes_def split: option.split)
qed

theorem password_diff_policy_witness:
  "buildUserUpdateExpression userA userA_new =
      Inr \<lparr>updateExpr = Some [Set ''Email'' (Value_string ''a2@example.com''),
             Set ''Image'' (Value_string ''pic.png''), Remove ''Bio'']\<rparr> \<and>
   PasswordHash userA_new = None \<and>
   instructionsFor ''PasswordHash''
     [Set ''Email'' (Value_string ''a2@example.com''),
      Set ''Image'' (Value_string ''pic.png''), Remove ''Bio''] = []"
proof -
  have b: "buildUserUpdateExpression userA userA_new =
      Inr \<lparr>updateExpr = Some [Set ''Email'' (Value_string ''a2@example.com''),
             Set ''Image'' (Value_string ''pic.png''), Remove ''Bio'']\<rparr>"
    by (simp add: buildUserUpdateExpression_diffOps diffOps_userA_new)
  have h: "PasswordHash userA_new = None"
    by (simp add: userA_new_def)
  show ?thesis
    using password_diff_policy [of userA userA_new]
    by (simp add: b h opsOf_def)
qed

text \<open>
  C8. For each of the fields image and bio, the expression the diff engine builds holds
  no instruction for the field when its value is unchanged, exactly the \<open>Set\<close> of the
  new value when it changed to a non-empty value, and exactly the \<open>Remove\<close> of the
  field when it changed to the empty string.
\<close>

theorem image_bio_diff_policy:
  "\<exists>expr. buildUserUpdateExpression oldUser newUser = Inr expr \<and>
     instructionsFor ''Image'' (opsOf expr) =
       (if Image oldUser = Image newUser then []
        else if Image newUser \<noteq> [] then [Set ''Image'' (Value_string (Image newUser))]
        else [Remove ''Image'']) \<and>
     instructionsFor ''Bio'' (opsOf expr) =
       (if Bio oldUser = Bio newUser then []
        else if Bio newUser \<noteq> [] then [Set ''Bio'' (Value_string (Bio newUser))]
        else [Remove ''Bio''])"
  by (simp add: buildUserUpdateExpression_diffOps opsOf_build instructionsFor_diffOps
      imageDiff_def bioDiff_def)

theorem image_bio_diff_policy_witness:
  "buildUserUpdateExpression userA userA_new =
      Inr \<lparr>updateExpr = Some [Set ''Email'' (Value_string ''a2@example.com''),
             Set ''Image'' (Value_string ''pic.png''), Remove ''Bio'']\<rparr> \<and>
   instructionsFor ''Image''
     [Set ''Email'' (Value_string ''a2@example.com''),
      Set ''Image'' (Value_string ''pic.png''), Remove ''Bio'']
     = [Set ''Image'' (Value_string ''pic.png'')] \<and>
   instructionsFor ''Bio''
     [Set ''Email'' (Value_string ''a2@example.com''),
      Set ''Image'' (Value_string ''pic.png''), Remove ''Bio'']
     = [Remove ''Bio'']"
proof -
  have b: "buildUserUpdateExpression userA userA_new =
      Inr \<lparr>updateExpr = Some [Set ''Email'' (Value_string ''a2@example.com''),
             Set ''Image'' (Value_string ''pic.png''), Remove ''Bio'']\<rparr>"
    by (simp add: buildUserUpdateExpression_diffOps diffOps_userA_new)
  have f: "Image userA = []" "Image userA_new = ''pic.png''"
    "Bio userA = ''hello''" "Bio userA_new = []"
    by (simp_all add: userA_def userA_new_def)
  show ?thesis
    using image_bio_diff_policy [of userA userA_new]
    by (simp add: b f opsOf_def)
qed

text \<open>
  C9. For a user that passes validation, \<^verbatim>\<open>PutUser\<close> issues exactly one store call, a
  \<^verbatim>\<open>TransactWriteItems\<close> of exactly two puts: the user record under the condition
  \<^verbatim>\<open>attribute_not_exists(Username)\<close>, and the projection record of the user's email and
  username under \<^verbatim>\<open>attribute_not_exists(Email)\<close>. Its result is the store's answer.
\<close>

theorem PutUser_two_puts:
  assumes "Validate env user = None"
  shows "PutUser env user =
     ([TransactWriteItemsCall
         [Put UserTableName (UserItem user) ''attribute_not_exists(Username)'',
          Put EmailUserTableName
            (EmailUserItem \<lparr>EmailUser_Email = Email user, EmailUser_Username = Username user\<rparr>)
            ''attribute_not_exists(Email)'']],
      TransactWriteItems env
        [Put UserTableName (UserItem user) ''attribute_not_exists(Username)'',
         Put EmailUserTableName
           (EmailUserItem \<lparr>EmailUser_Email = Email user, EmailUser_Username = Username user\<rparr>)
           ''attribute_not_exists(Email)''])"
  using assms by (rule PutUser_valid)

theorem PutUser_two_puts_witness:
  "Validate env_store userA = None \<and>
   PutUser env_store userA =
     ([TransactWriteItemsCall
         [Put UserTableName (UserItem userA) ''attribute_not_exists(Username)'',
          Put EmailUserTableName
            (EmailUserItem \<lparr>EmailUser_Email = ''a@example.com'', EmailUser_Username = ''a''\<rparr>)
            ''attribute_not_exists(Email)'']],
      None)"
proof -
  have h: "Validate env_store userA = None"
    by (simp add: env_simps)
  have f: "Email userA = ''a@example.com''" "Username userA = ''a''"
    by (simp_all add: userA_def)
  show ?thesis
    using PutUser_two_puts [OF h] h by (simp add: f env_simps)
qed

text \<open>
  C10. On the empty email \<^verbatim>\<open>GetUserByEmail\<close> returns the input error of field
  \<^verbatim>\<open>email\<close> with the message \<^verbatim>\<open>can't be blank\<close> and issues no store call.
\<close>

theorem GetUserByEmail_blank:
  "GetUserByEmail env [] = ([], Inl (InputError ''email'' ''can't be blank''))"
  by (simp add: GetUserByEmail_def)

end
